theory Spec2Isabelle
  imports Main "HOL-Library.Sublist"
begin

section \<open>The remote runner client of BentoML\<close>

text \<open>
  The development embeds \<^verbatim>\<open>RemoteRunnerClient\<close> of
  \<^verbatim>\<open>bentoml/_internal/runner/runner_handle/remote.py\<close>: the connector and session properties,
  the timeout lookup, and \<^verbatim>\<open>async_run_method\<close> with its request encoding and response
  decoding. Python exceptions are values of the type \<open>error\<close>; a function that can raise
  returns \<open>error + 'a\<close>. Mutation of the client object and of the objects it refers to is
  explicit state passing over a store.
\<close>

subsection \<open>Python strings and bytes\<close>

text \<open>
  A Python \<^verbatim>\<open>str\<close> is a \<open>string\<close> holding the text in UTF-8, one \<open>char\<close> per byte;
  \<^verbatim>\<open>bytes\<close> is a \<open>string\<close> too. All literals the client compares against are ASCII.
\<close>

type_synonym bytes = string

datatype error =
    ValueError string
  | RemoteException string
  | KeyError string
  | TypeError string
  | UnicodeDecodeError

text \<open>\<^verbatim>\<open>str.lower()\<close>: on the ASCII letters; every other byte is kept.\<close>

definition lower_char :: "char \<Rightarrow> char" where
  "lower_char c =
     (let n = (of_char c :: nat)
      in if 65 \<le> n \<and> n \<le> 90 then char_of (n + 32) else c)"

definition lower :: "string \<Rightarrow> string" where
  "lower s = map lower_char s"

text \<open>\<^verbatim>\<open>s.startswith(p)\<close>.\<close>

definition startswith :: "string \<Rightarrow> string \<Rightarrow> bool" where
  "startswith s p = (take (length p) s = p)"

text \<open>
  \<^verbatim>\<open>s.strip(chars)\<close>: removes from both ends of \<open>s\<close> every character that occurs in
  \<open>chars\<close>; the argument is a set of characters, not a prefix.
\<close>

definition lstrip :: "string \<Rightarrow> string \<Rightarrow> string" where
  "lstrip s chars = dropWhile (\<lambda>c. c \<in> set chars) s"

definition rstrip :: "string \<Rightarrow> string \<Rightarrow> string" where
  "rstrip s chars = rev (dropWhile (\<lambda>c. c \<in> set chars) (rev s))"

definition strip :: "string \<Rightarrow> string \<Rightarrow> string" where
  "strip s chars = rstrip (lstrip s chars) chars"

text \<open>\<^verbatim>\<open>str(n)\<close> for an integer, as an f-string formats it.\<close>

definition digit_char :: "nat \<Rightarrow> char" where
  "digit_char d = char_of (48 + d)"

fun str_nat :: "nat \<Rightarrow> string" where
  "str_nat n = (if n < 10 then [digit_char n] else str_nat (n div 10) @ [digit_char (n mod 10)])"

declare str_nat.simps [simp del]

definition str_int :: "int \<Rightarrow> string" where
  "str_int i = (if i < 0 then CHR ''-'' # str_nat (nat (- i)) else str_nat (nat i))"

text \<open>
  \<^verbatim>\<open>bytes.decode()\<close>: strict UTF-8. \<open>utf8_valid\<close> accepts exactly the well-formed byte
  sequences (no overlong forms, no surrogates, nothing above U+10FFFF); on any other
  input \<^verbatim>\<open>decode\<close> raises \<^verbatim>\<open>UnicodeDecodeError\<close>.
\<close>

definition cont_byte :: "nat \<Rightarrow> bool" where
  "cont_byte b = (128 \<le> b \<and> b \<le> 191)"

fun utf8_valid :: "nat list \<Rightarrow> bool" where
  "utf8_valid [] = True"
| "utf8_valid (b # bs) =
     (if b < 128 then utf8_valid bs
      else if 194 \<le> b \<and> b \<le> 223 then
        (case bs of c1 # r \<Rightarrow> cont_byte c1 \<and> utf8_valid r | _ \<Rightarrow> False)
      else if 224 \<le> b \<and> b \<le> 239 then
        (case bs of c1 # c2 # r \<Rightarrow>
           (if b = 224 then 160 \<le> c1 \<and> c1 \<le> 191
            else if b = 237 then 128 \<le> c1 \<and> c1 \<le> 159
            else cont_byte c1)
           \<and> cont_byte c2 \<and> utf8_valid r
         | _ \<Rightarrow> False)
      else if 240 \<le> b \<and> b \<le> 244 then
        (case bs of c1 # c2 # c3 # r \<Rightarrow>
           (if b = 240 then 144 \<le> c1 \<and> c1 \<le> 191
            else if b = 244 then 128 \<le> c1 \<and> c1 \<le> 143
            else cont_byte c1)
           \<and> cont_byte c2 \<and> cont_byte c3 \<and> utf8_valid r
         | _ \<Rightarrow> False)
      else False)"

definition decode :: "bytes \<Rightarrow> error + string" where
  "decode b = (if utf8_valid (map of_char b) then Inr b else Inl UnicodeDecodeError)"

subsection \<open>Dictionaries and headers\<close>

text \<open>\<^verbatim>\<open>d[k]\<close> on a dict given as an association list: \<^verbatim>\<open>KeyError\<close> when the key is absent.\<close>

definition getitem :: "(string \<times> 'v) list \<Rightarrow> string \<Rightarrow> error + 'v" where
  "getitem d k = (case map_of d k of None \<Rightarrow> Inl (KeyError k) | Some v \<Rightarrow> Inr v)"

text \<open>
  \<^verbatim>\<open>resp.headers\<close> is a case-insensitive multi-dict: \<^verbatim>\<open>headers[k]\<close> is the value of the
  first entry whose name equals \<open>k\<close> up to case, and raises \<^verbatim>\<open>KeyError\<close> when there is none.
\<close>

definition headers_getitem :: "(string \<times> string) list \<Rightarrow> string \<Rightarrow> string option" where
  "headers_getitem hs k = map_of (map (\<lambda>(n, v). (lower n, v)) hs) (lower k)"

subsection \<open>Configuration and the timeout lookup\<close>

text \<open>
  \<^verbatim>\<open>BentoMLContainer.runners_config.get()\<close> is a dict whose values are either plain settings
  (such as the global \<^verbatim>\<open>timeout\<close>) or nested dicts (one per configured runner).
\<close>

datatype cfg = CInt int | CDict "(string \<times> cfg) list"

definition subscript :: "cfg \<Rightarrow> string \<Rightarrow> error + cfg" where
  "subscript c k =
     (case c of
        CInt _ \<Rightarrow> Inl (TypeError ''int object is not subscriptable'')
      | CDict d \<Rightarrow> getitem d k)"

definition runner_timeout :: "(string \<times> cfg) list \<Rightarrow> string \<Rightarrow> error + cfg" where
  "runner_timeout runner_cfg rname =
     (case map_of runner_cfg rname of
        Some entry \<Rightarrow> subscript entry ''timeout''
      | None \<Rightarrow> getitem runner_cfg ''timeout'')"

subsection \<open>Objects of the client\<close>

datatype json =
    JNull | JBool bool | JInt int | JStr string
  | JList "json list" | JDict "(string \<times> json) list"

record payload =
  data :: bytes
  meta :: json
  container :: string
  batch_size :: int

record 'a params =
  args :: "'a list"
  kwargs :: "(string \<times> 'a) list"

definition params_map :: "('a \<Rightarrow> 'b) \<Rightarrow> 'a params \<Rightarrow> 'b params" where
  "params_map f p = \<lparr>args = map f (args p), kwargs = map (\<lambda>(k, v). (k, f v)) (kwargs p)\<rparr>"

text \<open>
  Modelled from the spec: \<^verbatim>\<open>Params.all_equal\<close> is declared outside the given sources; the
  spec reads it as ``every resulting payload must report the same batch size'', over the
  positional and the named values of the bundle.
\<close>

definition all_equal :: "'a params \<Rightarrow> bool" where
  "all_equal p =
     (case args p @ map snd (kwargs p) of
        [] \<Rightarrow> True
      | x # xs \<Rightarrow> list_all (\<lambda>y. y = x) xs)"

record runner_method =
  name :: string
  batchable :: bool
  batch_dim :: "int \<times> int"

record request =
  url :: string
  req_data :: "payload params"
  req_headers :: "(string \<times> string) list"

record response =
  status :: int
  body :: bytes
  resp_headers :: "(string \<times> string) list"

record parse_result =
  scheme :: string
  netloc :: string

datatype conn_kind = UnixConnector string | TCPConnector bool

record connector =
  kind :: conn_kind
  conn_loop :: nat
  limit :: nat
  keepalive_timeout :: nat
  conn_closed :: bool

record session =
  sess_connector :: nat
  sess_timeout :: cfg
  sess_loop :: "nat option"
  auto_decompress :: bool
  connector_owner :: bool
  trust_env :: bool
  sess_closed :: bool

text \<open>
  What the client reads from outside itself: the configuration container, the identity
  context, the event loops, the standard library's \<^verbatim>\<open>urlparse\<close> and \<^verbatim>\<open>json.loads\<close>
  (\<open>None\<close> is \<^verbatim>\<open>JSONDecodeError\<close>), the repository's \<^verbatim>\<open>uri_to_path\<close>,
  \<^verbatim>\<open>PAYLOAD_META_HEADER\<close> and \<^verbatim>\<open>AutoContainer.from_payload\<close>, the default of
  \<^verbatim>\<open>Payload.batch_size\<close>, and the peer that answers a POST (\<open>post\<close> covers the request
  and the read of the body; \<open>Inl\<close> is a transport failure).
\<close>

record 'r env =
  remote_runner_mapping :: "(string \<times> string) list"
  runners_config :: "(string \<times> cfg) list"
  urlparse :: "string \<Rightarrow> error + parse_result"
  uri_to_path :: "string \<Rightarrow> error + string"
  get_event_loop :: nat
  loop_is_closed :: "nat \<Rightarrow> bool"
  bento_name :: string
  bento_version :: string
  yatai_bento_deployment_name :: string
  yatai_bento_deployment_namespace :: string
  PAYLOAD_META_HEADER :: string
  json_loads :: "string \<Rightarrow> json option"
  default_batch_size :: int
  from_payload :: "payload \<Rightarrow> error + 'r"
  post :: "request \<Rightarrow> error + response"

text \<open>
  The client object with the store of the objects it creates. \<open>self_conn\<close> and
  \<open>self_client_cache\<close> are references (indices) into \<open>connectors\<close> and \<open>sessions\<close>;
  a connector that the client no longer refers to stays in the store as it was left.
  \<open>sent\<close> lists the requests handed to the network, oldest first.
\<close>

record state =
  runner_name :: string
  self_conn :: "nat option"
  self_client_cache :: "nat option"
  self_loop :: "nat option"
  self_addr :: "string option"
  connectors :: "connector list"
  sessions :: "session list"
  sent :: "request list"

definition RemoteRunnerClient :: "string \<Rightarrow> state" where
  "RemoteRunnerClient runner =
     \<lparr>runner_name = runner, self_conn = None, self_client_cache = None, self_loop = None,
      self_addr = None, connectors = [], sessions = [], sent = []\<rparr>"

definition connector_closed :: "state \<Rightarrow> nat \<Rightarrow> bool" where
  "connector_closed s c = (c < length (connectors s) \<and> conn_closed (connectors s ! c))"

definition session_closed :: "state \<Rightarrow> nat \<Rightarrow> bool" where
  "session_closed s c = (c < length (sessions s) \<and> sess_closed (sessions s ! c))"

subsection \<open>The connector\<close>

text \<open>\<^verbatim>\<open>_close_conn\<close>: closes the connector the client refers to, if there is one.\<close>

definition close_conn :: "state \<Rightarrow> state" where
  "close_conn s =
     (case self_conn s of
        None \<Rightarrow> s
      | Some c \<Rightarrow>
          if c < length (connectors s)
          then s\<lparr>connectors := (connectors s)[c := (connectors s ! c)\<lparr>conn_closed := True\<rparr>]\<rparr>
          else s)"

text \<open>
  The body of the \<^verbatim>\<open>if\<close> in \<^verbatim>\<open>_get_conn\<close>. The loop is stored before the address is
  looked up, so it stays stored when the lookup or the scheme test raises. The connector
  that \<open>self_conn\<close> referred to is not touched: the new one is put beside it.
\<close>

definition build_conn :: "'r env \<Rightarrow> state \<Rightarrow> (error + nat) \<times> state" where
  "build_conn env s =
     (let s1 = s\<lparr>self_loop := Some (get_event_loop env)\<rparr> in
      case getitem (remote_runner_mapping env) (runner_name s1) of
        Inl e \<Rightarrow> (Inl e, s1)
      | Inr bind_uri \<Rightarrow>
          (case urlparse env bind_uri of
             Inl e \<Rightarrow> (Inl e, s1)
           | Inr parsed \<Rightarrow>
               if scheme parsed = ''file'' then
                 (case uri_to_path env bind_uri of
                    Inl e \<Rightarrow> (Inl e, s1)
                  | Inr path \<Rightarrow>
                      let c = \<lparr>kind = UnixConnector path, conn_loop = get_event_loop env,
                               limit = 800, keepalive_timeout = 1800, conn_closed = False\<rparr>
                      in (Inr (length (connectors s1)),
                          s1\<lparr>self_conn := Some (length (connectors s1)),
                             self_addr := Some ''http://127.0.0.1:8000'',
                             connectors := connectors s1 @ [c]\<rparr>))
               else if scheme parsed = ''tcp'' then
                 (let c = \<lparr>kind = TCPConnector False, conn_loop = get_event_loop env,
                           limit = 800, keepalive_timeout = 1800, conn_closed = False\<rparr>
                  in (Inr (length (connectors s1)),
                      s1\<lparr>self_conn := Some (length (connectors s1)),
                         self_addr := Some (''http://'' @ netloc parsed),
                         connectors := connectors s1 @ [c]\<rparr>))
               else (Inl (ValueError (''Unsupported bind scheme: '' @ scheme parsed)), s1)))"

text \<open>
  \<^verbatim>\<open>_get_conn\<close>: builds a connector when there is no loop, no connector, the connector
  reports closed or the stored loop is closed; returns the stored one otherwise.
\<close>

definition get_conn :: "'r env \<Rightarrow> state \<Rightarrow> (error + nat) \<times> state" where
  "get_conn env s =
     (case self_loop s of
        None \<Rightarrow> build_conn env s
      | Some l \<Rightarrow>
          (case self_conn s of
             None \<Rightarrow> build_conn env s
           | Some c \<Rightarrow>
               if connector_closed s c \<or> loop_is_closed env l then build_conn env s
               else (Inr c, s)))"

subsection \<open>The session\<close>

text \<open>
  The body of the \<^verbatim>\<open>if\<close> in the property \<^verbatim>\<open>_client\<close>: the timeout is read first, then
  the arguments of \<^verbatim>\<open>ClientSession\<close> are evaluated in order, \<^verbatim>\<open>self._get_conn()\<close> before
  \<^verbatim>\<open>self._loop\<close>. The cookie jar and the trace configuration are left out.
\<close>

definition build_client :: "'r env \<Rightarrow> state \<Rightarrow> (error + nat) \<times> state" where
  "build_client env s =
     (case runner_timeout (runners_config env) (runner_name s) of
        Inl e \<Rightarrow> (Inl e, s)
      | Inr t \<Rightarrow>
          (case get_conn env s of
             (Inl e, s1) \<Rightarrow> (Inl e, s1)
           | (Inr c, s1) \<Rightarrow>
               let sess = \<lparr>sess_connector = c, sess_timeout = t, sess_loop = self_loop s1,
                           auto_decompress = False, connector_owner = False, trust_env = True,
                           sess_closed = False\<rparr>
               in (Inr (length (sessions s1)),
                   s1\<lparr>self_client_cache := Some (length (sessions s1)),
                      sessions := sessions s1 @ [sess]\<rparr>)))"

definition client :: "'r env \<Rightarrow> state \<Rightarrow> (error + nat) \<times> state" where
  "client env s =
     (case self_loop s of
        None \<Rightarrow> build_client env s
      | Some l \<Rightarrow>
          (case self_client_cache s of
             None \<Rightarrow> build_client env s
           | Some c \<Rightarrow>
               if session_closed s c \<or> loop_is_closed env l then build_client env s
               else (Inr c, s)))"

subsection \<open>Calling a method\<close>

definition quote :: string where
  "quote = [CHR 0x27]"

text \<open>
  Lines 164 to 199 of \<^verbatim>\<open>async_run_method\<close>: from the response to the \<^verbatim>\<open>Payload\<close>.
  Each f-string is evaluated before its exception is built, so a body that does not
  decode raises \<^verbatim>\<open>UnicodeDecodeError\<close> in place of the exception being formatted.
\<close>

definition decode_payload :: "'r env \<Rightarrow> string \<Rightarrow> response \<Rightarrow> error + payload" where
  "decode_payload env rname resp =
     (if status resp \<noteq> 200 then
        (case decode (body resp) of
           Inl e \<Rightarrow> Inl e
         | Inr text \<Rightarrow>
             Inl (RemoteException
                   (''An exception occurred in remote runner '' @ rname @ '': [''
                    @ str_int (status resp) @ ''] '' @ text)))
      else
        case headers_getitem (resp_headers resp) (PAYLOAD_META_HEADER env) of
          None \<Rightarrow>
            (case decode (body resp) of
               Inl e \<Rightarrow> Inl e
             | Inr text \<Rightarrow>
                 Inl (RemoteException
                       (''Bento payload decode error: '' @ PAYLOAD_META_HEADER env
                        @ '' header not set. ''
                        @ ''An exception might have occurred in the remote server.''
                        @ ''['' @ str_int (status resp) @ ''] '' @ text)))
        | Some meta_header \<Rightarrow>
            (case headers_getitem (resp_headers resp) ''Content-Type'' of
               None \<Rightarrow>
                 (case decode (body resp) of
                    Inl e \<Rightarrow> Inl e
                  | Inr text \<Rightarrow>
                      Inl (RemoteException
                            (''Bento payload decode error: Content-Type header not set. ''
                             @ ''An exception might have occurred in the remote server.''
                             @ ''['' @ str_int (status resp) @ ''] '' @ text)))
             | Some content_type \<Rightarrow>
                 if \<not> startswith (lower content_type) ''application/vnd.bentoml.'' then
                   Inl (RemoteException
                         (''Bento payload decode error: invalid Content-Type '' @ quote
                          @ content_type @ quote @ ''.''))
                 else
                   let container = strip content_type ''application/vnd.bentoml.'' in
                   (case json_loads env meta_header of
                      None \<Rightarrow> Inl (ValueError (''Bento payload decode error: '' @ meta_header))
                    | Some m \<Rightarrow>
                        Inr \<lparr>data = body resp, meta = m, container = container,
                             batch_size = default_batch_size env\<rparr>)))"

definition decode_response :: "'r env \<Rightarrow> string \<Rightarrow> response \<Rightarrow> error + 'r" where
  "decode_response env rname resp =
     (case decode_payload env rname resp of
        Inl e \<Rightarrow> Inl e
      | Inr p \<Rightarrow> from_payload env p)"

text \<open>\<^verbatim>\<open>f"{self._addr}"\<close>: \<^verbatim>\<open>None\<close> is formatted as the text \<^verbatim>\<open>None\<close>.\<close>

definition format_addr :: "string option \<Rightarrow> string" where
  "format_addr a = (case a of None \<Rightarrow> ''None'' | Some x \<Rightarrow> x)"

text \<open>\<^verbatim>\<open>path\<close> of line 150.\<close>

definition request_path :: "runner_method \<Rightarrow> string" where
  "request_path m = (if name m = ''__call__'' then [] else name m)"

text \<open>Lines 150 to 162: the path, the session, the request and the POST.\<close>

definition send_request ::
  "'r env \<Rightarrow> state \<Rightarrow> runner_method \<Rightarrow> payload params \<Rightarrow> (error + response) \<times> state" where
  "send_request env s m payload_params =
     (let path = request_path m in
      case client env s of
        (Inl e, s1) \<Rightarrow> (Inl e, s1)
      | (Inr sess, s1) \<Rightarrow>
          let req = \<lparr>url = format_addr (self_addr s1) @ ''/'' @ path,
                     req_data = payload_params,
                     req_headers =
                       [(''Bento-Name'', bento_name env),
                        (''Bento-Version'', bento_version env),
                        (''Runner-Name'', runner_name s1),
                        (''Yatai-Bento-Deployment-Name'', yatai_bento_deployment_name env),
                        (''Yatai-Bento-Deployment-Namespace'',
                         yatai_bento_deployment_namespace env)]\<rparr>;
              s2 = s1\<lparr>sent := sent s1 @ [req]\<rparr>
          in (post env req, s2))"

text \<open>
  \<^verbatim>\<open>async_run_method\<close>, from the encoded argument bundle \<^verbatim>\<open>payload_params\<close> on (the
  codec's \<^verbatim>\<open>to_payload\<close> has produced it; \<^verbatim>\<open>pickle.dumps\<close> of the bundle is the bundle).
\<close>

definition async_run_method ::
  "'r env \<Rightarrow> state \<Rightarrow> runner_method \<Rightarrow> payload params \<Rightarrow> (error + 'r) \<times> state" where
  "async_run_method env s m payload_params =
     (if batchable m \<and> \<not> all_equal (params_map batch_size payload_params) then
        (Inl (ValueError ''All batchable arguments must have the same batch size.''), s)
      else
        case send_request env s m payload_params of
          (Inl e, s1) \<Rightarrow> (Inl e, s1)
        | (Inr resp, s1) \<Rightarrow> (decode_response env (runner_name s1) resp, s1))"

subsection \<open>Staleness\<close>

text \<open>The condition of line 60 under which \<^verbatim>\<open>_get_conn\<close> builds a connector.\<close>

definition conn_stale :: "'r env \<Rightarrow> state \<Rightarrow> bool" where
  "conn_stale env s =
     (case self_loop s of
        None \<Rightarrow> True
      | Some l \<Rightarrow>
          (case self_conn s of
             None \<Rightarrow> True
           | Some c \<Rightarrow> connector_closed s c \<or> loop_is_closed env l))"

subsection \<open>A concrete environment\<close>

text \<open>
  The standard library's \<^verbatim>\<open>urlparse\<close> as far as the examples need it, after
  \<^verbatim>\<open>urlsplit\<close>: the scheme is the text before the first colon, lower-cased, when that
  text is not empty and consists of scheme characters; the network location follows
  \<^verbatim>\<open>//\<close> and ends before the next \<^verbatim>\<open>/\<close>, \<^verbatim>\<open>?\<close> or \<^verbatim>\<open>#\<close>; unbalanced
  brackets in it raise \<^verbatim>\<open>ValueError\<close>.
\<close>

definition scheme_chars :: string where
  "scheme_chars = ''abcdefghijklmnopqrstuvwxyzABCDEFGHIJKLMNOPQRSTUVWXYZ0123456789+-.''"

definition urlparse_std :: "string \<Rightarrow> error + parse_result" where
  "urlparse_std u =
     (let pre = takeWhile (\<lambda>c. c \<noteq> CHR '':'') u;
          has_scheme = (length pre < length u \<and> pre \<noteq> []
                        \<and> list_all (\<lambda>c. c \<in> set scheme_chars) pre);
          sch = (if has_scheme then lower pre else []);
          rest = (if has_scheme then drop (Suc (length pre)) u else u);
          nl = (if take 2 rest = ''//''
                then takeWhile (\<lambda>c. c \<notin> set ''/?#'') (drop 2 rest) else [])
      in if (CHR ''['' \<in> set nl) \<noteq> (CHR '']'' \<in> set nl)
         then Inl (ValueError ''Invalid IPv6 URL'')
         else Inr \<lparr>scheme = sch, netloc = nl\<rparr>)"

text \<open>
  An environment for the examples: one loop (number 0, open), a peer that answers every
  request with \<open>resp\<close>, a \<^verbatim>\<open>json.loads\<close> that knows the empty object only, and a codec
  whose \<^verbatim>\<open>from_payload\<close> hands the payload back.
\<close>

definition example_env ::
  "(string \<times> string) list \<Rightarrow> (string \<times> cfg) list \<Rightarrow> response \<Rightarrow> payload env" where
  "example_env mapping runner_cfg resp =
     \<lparr>remote_runner_mapping = mapping,
      runners_config = runner_cfg,
      urlparse = urlparse_std,
      uri_to_path = (\<lambda>u. Inr (drop 7 u)),
      get_event_loop = 0,
      loop_is_closed = (\<lambda>l. False),
      bento_name = ''iris'',
      bento_version = ''v1'',
      yatai_bento_deployment_name = [],
      yatai_bento_deployment_namespace = [],
      PAYLOAD_META_HEADER = ''Bento-Payload-Meta'',
      json_loads = (\<lambda>t. if t = ''{}'' then Some (JDict []) else None),
      default_batch_size = - 1,
      from_payload = Inr,
      post = (\<lambda>r. Inr resp)\<rparr>"

definition ok_response :: response where
  "ok_response =
     \<lparr>status = 200, body = ''[1]'',
      resp_headers = [(''Bento-Payload-Meta'', ''{}''),
                      (''Content-Type'', ''application/vnd.bentoml.NdarrayContainer'')]\<rparr>"

text \<open>
  A client that built its connector on loop 0, and the environment after that loop has
  been closed and replaced by loop 1.
\<close>

definition loop_replaced_env :: "payload env" where
  "loop_replaced_env =
     (example_env [(''r'', ''tcp://127.0.0.1:3000'')] [] ok_response)
       \<lparr>get_event_loop := 1, loop_is_closed := (\<lambda>l. l = 0)\<rparr>"

definition built_once :: state where
  "built_once =
     snd (get_conn (example_env [(''r'', ''tcp://127.0.0.1:3000'')] [] ok_response)
            (RemoteRunnerClient ''r''))"

section \<open>Properties\<close>

subsection \<open>Helper lemmas\<close>

lemma lower_append: "lower (a @ b) = lower a @ lower b"
  by (simp add: lower_def)

lemma length_lower: "length (lower a) = length a"
  by (simp add: lower_def)

lemma startswith_lower_prefix:
  assumes "lower p = q"
  shows "startswith (lower (p @ t)) q"
proof -
  have "length q = length p" using assms length_lower by metis
  then show ?thesis using assms by (simp add: startswith_def lower_append)
qed

lemma get_conn_stale: "conn_stale env s \<Longrightarrow> get_conn env s = build_conn env s"
  by (auto simp: conn_stale_def get_conn_def split: option.splits)

lemma build_conn_connectors:
  "build_conn env s = (r, s') \<Longrightarrow> take (length (connectors s)) (connectors s') = connectors s"
  by (auto simp: build_conn_def Let_def split: sum.splits if_splits)

lemma get_conn_connectors:
  "get_conn env s = (r, s') \<Longrightarrow> take (length (connectors s)) (connectors s') = connectors s"
  by (auto simp: get_conn_def build_conn_connectors split: option.splits if_splits)

lemma all_equal_iff:
  "all_equal (params_map f p) \<longleftrightarrow>
     (\<forall>x\<in>set (args p @ map snd (kwargs p)). \<forall>y\<in>set (args p @ map snd (kwargs p)). f x = f y)"
proof -
  have eq: "args (params_map f p) @ map snd (kwargs (params_map f p))
              = map f (args p @ map snd (kwargs p))"
    by (simp add: params_map_def case_prod_unfold comp_def)
  show ?thesis
  proof (cases "args p @ map snd (kwargs p)")
    case Nil
    then show ?thesis unfolding all_equal_def eq by simp
  next
    case (Cons a as)
    then show ?thesis unfolding all_equal_def eq
      by (auto simp: list_all_iff)
  qed
qed

subsection \<open>The transport resolver\<close>

text \<open>
  Claim C1, amended. When \<^verbatim>\<open>_get_conn\<close> builds a connector for a runner whose bind
  address parses: for scheme \<^verbatim>\<open>file\<close> it stores a \<^verbatim>\<open>UnixConnector\<close> on the path of
  the address and the placeholder authority \<^verbatim>\<open>http://127.0.0.1:8000\<close>; for scheme
  \<^verbatim>\<open>tcp\<close> it stores a \<^verbatim>\<open>TCPConnector\<close> and the authority \<^verbatim>\<open>http://\<close> followed by
  the network location (\<^verbatim>\<open>host:port\<close>); for every other scheme, \<^verbatim>\<open>unix\<close> included, it
  raises \<^verbatim>\<open>ValueError\<close> (the spec's ConfigurationError), and then no connector is
  created and nothing is sent: only the loop has been stored.
\<close>

theorem transport_resolver_schemes:
  assumes "conn_stale env s"
    and "getitem (remote_runner_mapping env) (runner_name s) = Inr bind_uri"
    and "urlparse env bind_uri = Inr parsed"
  shows "(scheme parsed = ''file'' \<and> uri_to_path env bind_uri = Inr path
          \<longrightarrow> get_conn env s =
                (Inr (length (connectors s)),
                 s\<lparr>self_loop := Some (get_event_loop env),
                   self_conn := Some (length (connectors s)),
                   self_addr := Some ''http://127.0.0.1:8000'',
                   connectors := connectors s @
                     [\<lparr>kind = UnixConnector path, conn_loop = get_event_loop env,
                       limit = 800, keepalive_timeout = 1800, conn_closed = False\<rparr>]\<rparr>))
       \<and> (scheme parsed = ''tcp''
          \<longrightarrow> get_conn env s =
                (Inr (length (connectors s)),
                 s\<lparr>self_loop := Some (get_event_loop env),
                   self_conn := Some (length (connectors s)),
                   self_addr := Some (''http://'' @ netloc parsed),
                   connectors := connectors s @
                     [\<lparr>kind = TCPConnector False, conn_loop = get_event_loop env,
                       limit = 800, keepalive_timeout = 1800, conn_closed = False\<rparr>]\<rparr>))
       \<and> (scheme parsed \<noteq> ''file'' \<and> scheme parsed \<noteq> ''tcp''
          \<longrightarrow> get_conn env s =
                (Inl (ValueError (''Unsupported bind scheme: '' @ scheme parsed)),
                 s\<lparr>self_loop := Some (get_event_loop env)\<rparr>))"
  using assms by (simp add: get_conn_stale build_conn_def Let_def)

theorem transport_resolver_schemes_witness:
  "get_conn (example_env [(''r'', ''file:///tmp/r.sock'')] [] ok_response) (RemoteRunnerClient ''r'')
     = (Inr 0,
        \<lparr>runner_name = ''r'', self_conn = Some 0, self_client_cache = None, self_loop = Some 0,
         self_addr = Some ''http://127.0.0.1:8000'',
         connectors = [\<lparr>kind = UnixConnector ''/tmp/r.sock'', conn_loop = 0, limit = 800,
                        keepalive_timeout = 1800, conn_closed = False\<rparr>],
         sessions = [], sent = []\<rparr>)
   \<and> get_conn (example_env [(''r'', ''tcp://127.0.0.1:3000'')] [] ok_response) (RemoteRunnerClient ''r'')
     = (Inr 0,
        \<lparr>runner_name = ''r'', self_conn = Some 0, self_client_cache = None, self_loop = Some 0,
         self_addr = Some ''http://127.0.0.1:3000'',
         connectors = [\<lparr>kind = TCPConnector False, conn_loop = 0, limit = 800,
                        keepalive_timeout = 1800, conn_closed = False\<rparr>],
         sessions = [], sent = []\<rparr>)
   \<and> get_conn (example_env [(''r'', ''http://127.0.0.1:3000'')] [] ok_response) (RemoteRunnerClient ''r'')
     = (Inl (ValueError ''Unsupported bind scheme: http''),
        \<lparr>runner_name = ''r'', self_conn = None, self_client_cache = None, self_loop = Some 0,
         self_addr = None, connectors = [], sessions = [], sent = []\<rparr>)"
proof -
  let ?s = "RemoteRunnerClient ''r''"
  let ?e1 = "example_env [(''r'', ''file:///tmp/r.sock'')] [] ok_response"
  let ?e2 = "example_env [(''r'', ''tcp://127.0.0.1:3000'')] [] ok_response"
  let ?e3 = "example_env [(''r'', ''http://127.0.0.1:3000'')] [] ok_response"
  have st: "conn_stale e ?s" for e :: "payload env"
    by (simp add: conn_stale_def RemoteRunnerClient_def)
  have g1: "getitem (remote_runner_mapping ?e1) (runner_name ?s) = Inr ''file:///tmp/r.sock''"
    by code_simp
  have g2: "getitem (remote_runner_mapping ?e2) (runner_name ?s) = Inr ''tcp://127.0.0.1:3000''"
    by code_simp
  have g3: "getitem (remote_runner_mapping ?e3) (runner_name ?s) = Inr ''http://127.0.0.1:3000''"
    by code_simp
  have u1: "urlparse ?e1 ''file:///tmp/r.sock'' = Inr \<lparr>scheme = ''file'', netloc = []\<rparr>"
    by code_simp
  have u2: "urlparse ?e2 ''tcp://127.0.0.1:3000''
              = Inr \<lparr>scheme = ''tcp'', netloc = ''127.0.0.1:3000''\<rparr>"
    by code_simp
  have u3: "urlparse ?e3 ''http://127.0.0.1:3000''
              = Inr \<lparr>scheme = ''http'', netloc = ''127.0.0.1:3000''\<rparr>"
    by code_simp
  have p1: "uri_to_path ?e1 ''file:///tmp/r.sock'' = Inr ''/tmp/r.sock''"
    by code_simp
  have l: "get_event_loop (example_env m c ok_response) = 0" for m c
    by (simp add: example_env_def)
  have 1: "get_conn ?e1 ?s
     = (Inr 0,
        \<lparr>runner_name = ''r'', self_conn = Some 0, self_client_cache = None, self_loop = Some 0,
         self_addr = Some ''http://127.0.0.1:8000'',
         connectors = [\<lparr>kind = UnixConnector ''/tmp/r.sock'', conn_loop = 0, limit = 800,
                        keepalive_timeout = 1800, conn_closed = False\<rparr>],
         sessions = [], sent = []\<rparr>)"
    using transport_resolver_schemes [OF st g1 u1, of "''/tmp/r.sock''"] p1
    by (simp add: l RemoteRunnerClient_def)
  have 2: "get_conn ?e2 ?s
     = (Inr 0,
        \<lparr>runner_name = ''r'', self_conn = Some 0, self_client_cache = None, self_loop = Some 0,
         self_addr = Some ''http://127.0.0.1:3000'',
         connectors = [\<lparr>kind = TCPConnector False, conn_loop = 0, limit = 800,
                        keepalive_timeout = 1800, conn_closed = False\<rparr>],
         sessions = [], sent = []\<rparr>)"
    using transport_resolver_schemes [OF st g2 u2, of "[]"]
    by (simp add: l RemoteRunnerClient_def)
  have 3: "get_conn ?e3 ?s
     = (Inl (ValueError ''Unsupported bind scheme: http''),
        \<lparr>runner_name = ''r'', self_conn = None, self_client_cache = None, self_loop = Some 0,
         self_addr = None, connectors = [], sessions = [], sent = []\<rparr>)"
    using transport_resolver_schemes [OF st g3 u3, of "[]"]
    by (simp add: l RemoteRunnerClient_def)
  from 1 2 3 show ?thesis by blast
qed

text \<open>
  The claim as written names the scheme \<^verbatim>\<open>unix\<close> for the domain socket; the source
  tests for \<^verbatim>\<open>file\<close>, so an address \<^verbatim>\<open>unix:///tmp/r.sock\<close> is rejected.
\<close>

theorem unix_scheme_counterexample:
  "get_conn (example_env [(''r'', ''unix:///tmp/r.sock'')] [] ok_response) (RemoteRunnerClient ''r'')
     = (Inl (ValueError ''Unsupported bind scheme: unix''),
        (RemoteRunnerClient ''r'')\<lparr>self_loop := Some 0\<rparr>)"
  by code_simp

subsection \<open>The container tag\<close>

text \<open>
  Claim C2. The tag is meant to be the Content-Type without the vendor prefix, but
  line 192 calls \<^verbatim>\<open>str.strip\<close>, which removes every leading and trailing character
  that occurs anywhere in the prefix. For the Content-Type
  \<^verbatim>\<open>application/vnd.bentoml.ndarray\<close> the payload's container is \<^verbatim>\<open>rray\<close>, not
  \<^verbatim>\<open>ndarray\<close>.
\<close>

theorem strip_eats_into_tag:
  "decode_payload (example_env [] [] ok_response) ''r''
     \<lparr>status = 200, body = ''[1]'',
      resp_headers = [(''Bento-Payload-Meta'', ''{}''),
                      (''Content-Type'', ''application/vnd.bentoml.ndarray'')]\<rparr>
   = Inr \<lparr>data = ''[1]'', meta = JDict [], container = ''rray'', batch_size = - 1\<rparr>"
  by code_simp

subsection \<open>Responses with a status other than 200\<close>

text \<open>
  Claim C3, amended. For every response with a status other than 200 whose body is
  valid UTF-8, the decoder raises \<^verbatim>\<open>RemoteException\<close> (the spec's RemoteFault) whatever
  the headers are, so before any header is looked at; the message contains the runner
  name, the status and the body.
\<close>

theorem non_200_is_remote_fault:
  assumes "status resp \<noteq> 200" and "utf8_valid (map of_char (body resp))"
  shows "decode_response env rname (resp\<lparr>resp_headers := hs\<rparr>)
           = Inl (RemoteException
                   (''An exception occurred in remote runner '' @ rname @ '': [''
                    @ str_int (status resp) @ ''] '' @ body resp))
         \<and> sublist rname (''An exception occurred in remote runner '' @ rname @ '': [''
                    @ str_int (status resp) @ ''] '' @ body resp)
         \<and> sublist (str_int (status resp))
              (''An exception occurred in remote runner '' @ rname @ '': [''
                    @ str_int (status resp) @ ''] '' @ body resp)
         \<and> sublist (body resp)
              (''An exception occurred in remote runner '' @ rname @ '': [''
                    @ str_int (status resp) @ ''] '' @ body resp)"
proof -
  let ?a = "''An exception occurred in remote runner ''"
  let ?msg = "?a @ rname @ '': ['' @ str_int (status resp) @ ''] '' @ body resp"
  have 1: "decode_response env rname (resp\<lparr>resp_headers := hs\<rparr>) = Inl (RemoteException ?msg)"
    using assms by (simp add: decode_response_def decode_payload_def decode_def)
  have 2: "sublist rname ?msg"
    by (rule sublist_appendI)
  have "?msg = (?a @ rname @ '': ['') @ str_int (status resp) @ (''] '' @ body resp)"
    by simp
  then have 3: "sublist (str_int (status resp)) ?msg"
    using sublist_appendI by metis
  have "?msg = (?a @ rname @ '': ['' @ str_int (status resp) @ ''] '') @ body resp @ []"
    by simp
  then have 4: "sublist (body resp) ?msg"
    using sublist_appendI by metis
  from 1 2 3 4 show ?thesis by blast
qed

theorem non_200_is_remote_fault_witness:
  "decode_response (example_env [] [] ok_response) ''r''
      \<lparr>status = 500, body = ''boom'', resp_headers = resp_headers ok_response\<rparr>
     = Inl (RemoteException ''An exception occurred in remote runner r: [500] boom'')
   \<and> sublist ''500'' ''An exception occurred in remote runner r: [500] boom''
   \<and> sublist ''boom'' ''An exception occurred in remote runner r: [500] boom''"
proof -
  let ?resp = "\<lparr>status = 500, body = ''boom'', resp_headers = []\<rparr>"
  have h1: "status ?resp \<noteq> 200" by simp
  have h2: "utf8_valid (map of_char (body ?resp))" by code_simp
  have s: "str_int 500 = ''500''" by code_simp
  show ?thesis
    using non_200_is_remote_fault
      [OF h1 h2, of "example_env [] [] ok_response" "''r''" "resp_headers ok_response"]
    by (simp add: s)
qed

text \<open>
  The claim as written covers every body; the message is formatted with
  \<^verbatim>\<open>body.decode()\<close>, which raises for a body that is not UTF-8.
\<close>

theorem non_200_undecodable_body_counterexample:
  "decode_response (example_env [] [] ok_response) ''r''
      \<lparr>status = 500, body = [CHR 0xFF], resp_headers = []\<rparr>
     = Inl UnicodeDecodeError"
  by code_simp

subsection \<open>The batch size check\<close>

text \<open>
  Claim C4. For a batchable method: if two payloads of the bundle report different
  batch sizes, \<^verbatim>\<open>async_run_method\<close> raises the \<^verbatim>\<open>ValueError\<close> of line 146 (the spec's
  ValidationError) and leaves the client as it was, so no request is sent; if all
  payloads report the same batch size, the check raises nothing and the call goes on
  to send the request and decode the response.
\<close>

theorem batch_size_check:
  assumes "batchable m"
  shows "((\<exists>x\<in>set (args p @ map snd (kwargs p)). \<exists>y\<in>set (args p @ map snd (kwargs p)).
             batch_size x \<noteq> batch_size y)
          \<longrightarrow> async_run_method env s m p
                = (Inl (ValueError ''All batchable arguments must have the same batch size.''), s)
              \<and> sent (snd (async_run_method env s m p)) = sent s)
       \<and> ((\<forall>x\<in>set (args p @ map snd (kwargs p)). \<forall>y\<in>set (args p @ map snd (kwargs p)).
             batch_size x = batch_size y)
          \<longrightarrow> async_run_method env s m p
                = (case send_request env s m p of
                     (Inl e, s1) \<Rightarrow> (Inl e, s1)
                   | (Inr resp, s1) \<Rightarrow> (decode_response env (runner_name s1) resp, s1)))"
proof (cases "all_equal (params_map batch_size p)")
  case True
  have same: "\<forall>x\<in>set (args p @ map snd (kwargs p)). \<forall>y\<in>set (args p @ map snd (kwargs p)).
             batch_size x = batch_size y"
    using True all_equal_iff [of batch_size p] by blast
  have run: "async_run_method env s m p
                = (case send_request env s m p of
                     (Inl e, s1) \<Rightarrow> (Inl e, s1)
                   | (Inr resp, s1) \<Rightarrow> (decode_response env (runner_name s1) resp, s1))"
    using True by (simp add: async_run_method_def)
  from same run show ?thesis by blast
next
  case False
  have diff: "\<not> (\<forall>x\<in>set (args p @ map snd (kwargs p)). \<forall>y\<in>set (args p @ map snd (kwargs p)).
             batch_size x = batch_size y)"
    using False all_equal_iff [of batch_size p] by blast
  have run: "async_run_method env s m p
                = (Inl (ValueError ''All batchable arguments must have the same batch size.''), s)"
    using False assms by (simp add: async_run_method_def)
  then have "sent (snd (async_run_method env s m p)) = sent s" by simp
  with diff run show ?thesis by blast
qed

theorem batch_size_check_witness:
  "async_run_method (example_env [(''r'', ''tcp://127.0.0.1:3000'')] [(''timeout'', CInt 300)] ok_response)
      (RemoteRunnerClient ''r'')
      \<lparr>name = ''predict'', batchable = True, batch_dim = (0, 0)\<rparr>
      \<lparr>args = [\<lparr>data = ''a'', meta = JNull, container = ''c'', batch_size = 1\<rparr>],
       kwargs = [(''k'', \<lparr>data = ''b'', meta = JNull, container = ''c'', batch_size = 2\<rparr>)]\<rparr>
     = (Inl (ValueError ''All batchable arguments must have the same batch size.''),
        RemoteRunnerClient ''r'')
   \<and> sent (RemoteRunnerClient ''r'') = []
   \<and> fst (async_run_method (example_env [(''r'', ''tcp://127.0.0.1:3000'')] [(''timeout'', CInt 300)] ok_response)
      (RemoteRunnerClient ''r'')
      \<lparr>name = ''predict'', batchable = True, batch_dim = (0, 0)\<rparr>
      \<lparr>args = [\<lparr>data = ''a'', meta = JNull, container = ''c'', batch_size = 2\<rparr>],
       kwargs = [(''k'', \<lparr>data = ''b'', meta = JNull, container = ''c'', batch_size = 2\<rparr>)]\<rparr>)
     = Inr \<lparr>data = ''[1]'', meta = JDict [], container = ''NdarrayContainer'', batch_size = - 1\<rparr>"
proof -
  let ?env = "example_env [(''r'', ''tcp://127.0.0.1:3000'')] [(''timeout'', CInt 300)] ok_response"
  let ?s = "RemoteRunnerClient ''r''"
  let ?m = "\<lparr>name = ''predict'', batchable = True, batch_dim = (0, 0)\<rparr>"
  let ?p1 = "\<lparr>args = [\<lparr>data = ''a'', meta = JNull, container = ''c'', batch_size = 1\<rparr>],
       kwargs = [(''k'', \<lparr>data = ''b'', meta = JNull, container = ''c'', batch_size = 2\<rparr>)]\<rparr>"
  let ?p2 = "\<lparr>args = [\<lparr>data = ''a'', meta = JNull, container = ''c'', batch_size = 2\<rparr>],
       kwargs = [(''k'', \<lparr>data = ''b'', meta = JNull, container = ''c'', batch_size = 2\<rparr>)]\<rparr>"
  have b: "batchable ?m" by simp
  have k: "fst (case send_request ?env ?s ?m ?p2 of
                     (Inl e, s1) \<Rightarrow> (Inl e, s1)
                   | (Inr resp, s1) \<Rightarrow> (decode_response ?env (runner_name s1) resp, s1))
           = Inr \<lparr>data = ''[1]'', meta = JDict [], container = ''NdarrayContainer'',
                  batch_size = - 1\<rparr>"
    by code_simp
  have d: "\<exists>x\<in>set (args ?p1 @ map snd (kwargs ?p1)). \<exists>y\<in>set (args ?p1 @ map snd (kwargs ?p1)).
             batch_size x \<noteq> batch_size y"
    by auto
  have e: "\<forall>x\<in>set (args ?p2 @ map snd (kwargs ?p2)). \<forall>y\<in>set (args ?p2 @ map snd (kwargs ?p2)).
             batch_size x = batch_size y"
    by simp
  have 1: "async_run_method ?env ?s ?m ?p1
     = (Inl (ValueError ''All batchable arguments must have the same batch size.''), ?s)"
    using batch_size_check [OF b, of ?p1 ?env ?s] d by blast
  have 2: "sent ?s = []" by (simp add: RemoteRunnerClient_def)
  have 3: "fst (async_run_method ?env ?s ?m ?p2)
     = Inr \<lparr>data = ''[1]'', meta = JDict [], container = ''NdarrayContainer'',
            batch_size = - 1\<rparr>"
  proof -
    have "async_run_method ?env ?s ?m ?p2
            = (case send_request ?env ?s ?m ?p2 of
                 (Inl e, s1) \<Rightarrow> (Inl e, s1)
               | (Inr resp, s1) \<Rightarrow> (decode_response ?env (runner_name s1) resp, s1))"
      using batch_size_check [OF b, of ?p2 ?env ?s] e by blast
    then show ?thesis using k by simp
  qed
  from 1 2 3 show ?thesis by blast
qed

subsection \<open>Malformed responses with status 200\<close>

text \<open>
  Claim C5, amended. For a response with status 200: a missing payload-metadata header
  raises \<^verbatim>\<open>RemoteException\<close> (the spec's ProtocolError) whatever the Content-Type is;
  with that header present, a missing Content-Type raises it; with both present, a
  Content-Type that does not start with the vendor prefix raises it. The first two
  hold for bodies that are valid UTF-8, the third for every body.
\<close>

theorem malformed_200_is_protocol_error:
  assumes "status resp = 200"
  shows "(headers_getitem (resp_headers resp) (PAYLOAD_META_HEADER env) = None
            \<and> utf8_valid (map of_char (body resp))
          \<longrightarrow> decode_response env rname resp
                = Inl (RemoteException
                        (''Bento payload decode error: '' @ PAYLOAD_META_HEADER env
                         @ '' header not set. ''
                         @ ''An exception might have occurred in the remote server.''
                         @ ''['' @ str_int (status resp) @ ''] '' @ body resp)))
       \<and> (headers_getitem (resp_headers resp) (PAYLOAD_META_HEADER env) = Some mh
            \<and> headers_getitem (resp_headers resp) ''Content-Type'' = None
            \<and> utf8_valid (map of_char (body resp))
          \<longrightarrow> decode_response env rname resp
                = Inl (RemoteException
                        (''Bento payload decode error: Content-Type header not set. ''
                         @ ''An exception might have occurred in the remote server.''
                         @ ''['' @ str_int (status resp) @ ''] '' @ body resp)))
       \<and> (headers_getitem (resp_headers resp) (PAYLOAD_META_HEADER env) = Some mh
            \<and> headers_getitem (resp_headers resp) ''Content-Type'' = Some ct
            \<and> \<not> startswith (lower ct) ''application/vnd.bentoml.''
          \<longrightarrow> decode_response env rname resp
                = Inl (RemoteException
                        (''Bento payload decode error: invalid Content-Type '' @ quote
                         @ ct @ quote @ ''.'')))"
  using assms by (simp add: decode_response_def decode_payload_def decode_def)

theorem malformed_200_is_protocol_error_witness:
  "decode_response (example_env [] [] ok_response) ''r''
      \<lparr>status = 200, body = ''boom'', resp_headers = [(''Content-Type'', ''text/html'')]\<rparr>
     = Inl (RemoteException (''Bento payload decode error: Bento-Payload-Meta header not set. ''
             @ ''An exception might have occurred in the remote server.[200] boom''))
   \<and> decode_response (example_env [] [] ok_response) ''r''
      \<lparr>status = 200, body = ''boom'', resp_headers = [(''bento-payload-meta'', ''{}'')]\<rparr>
     = Inl (RemoteException (''Bento payload decode error: Content-Type header not set. ''
             @ ''An exception might have occurred in the remote server.[200] boom''))
   \<and> decode_response (example_env [] [] ok_response) ''r''
      \<lparr>status = 200, body = [CHR 0xFF],
       resp_headers = [(''Bento-Payload-Meta'', ''{}''), (''Content-Type'', ''text/html'')]\<rparr>
     = Inl (RemoteException (''Bento payload decode error: invalid Content-Type ''
             @ quote @ ''text/html'' @ quote @ ''.''))"
proof -
  let ?env = "example_env [] [] ok_response"
  let ?r1 = "\<lparr>status = 200, body = ''boom'', resp_headers = [(''Content-Type'', ''text/html'')]\<rparr>"
  let ?r2 = "\<lparr>status = 200, body = ''boom'', resp_headers = [(''bento-payload-meta'', ''{}'')]\<rparr>"
  let ?r3 = "\<lparr>status = 200, body = [CHR 0xFF],
       resp_headers = [(''Bento-Payload-Meta'', ''{}''), (''Content-Type'', ''text/html'')]\<rparr>"
  have s: "str_int 200 = ''200''" by code_simp
  have v: "utf8_valid (map of_char ''boom'')" by code_simp
  have m: "PAYLOAD_META_HEADER ?env = ''Bento-Payload-Meta''" by (simp add: example_env_def)
  have a1: "headers_getitem (resp_headers ?r1) (PAYLOAD_META_HEADER ?env) = None" by code_simp
  have a2: "headers_getitem (resp_headers ?r2) (PAYLOAD_META_HEADER ?env) = Some ''{}''" by code_simp
  have b2: "headers_getitem (resp_headers ?r2) ''Content-Type'' = None" by code_simp
  have a3: "headers_getitem (resp_headers ?r3) (PAYLOAD_META_HEADER ?env) = Some ''{}''" by code_simp
  have b3: "headers_getitem (resp_headers ?r3) ''Content-Type'' = Some ''text/html''" by code_simp
  have c3: "\<not> startswith (lower ''text/html'') ''application/vnd.bentoml.''" by code_simp
  have 1: "decode_response ?env ''r'' ?r1
     = Inl (RemoteException (''Bento payload decode error: Bento-Payload-Meta header not set. ''
             @ ''An exception might have occurred in the remote server.[200] boom''))"
    using malformed_200_is_protocol_error
        [where resp = "?r1" and env = "?env" and rname = "''r''" and mh = "''{}''"
           and ct = "''text/html''"] a1 v
    by (simp add: s m)
  have 2: "decode_response ?env ''r'' ?r2
     = Inl (RemoteException (''Bento payload decode error: Content-Type header not set. ''
             @ ''An exception might have occurred in the remote server.[200] boom''))"
    using malformed_200_is_protocol_error
        [where resp = "?r2" and env = "?env" and rname = "''r''" and mh = "''{}''"
           and ct = "''text/html''"] a2 b2 v
    by (simp add: s)
  have 3: "decode_response ?env ''r'' ?r3
     = Inl (RemoteException (''Bento payload decode error: invalid Content-Type ''
             @ quote @ ''text/html'' @ quote @ ''.''))"
    using malformed_200_is_protocol_error
        [where resp = "?r3" and env = "?env" and rname = "''r''" and mh = "''{}''"
           and ct = "''text/html''"] a3 b3 c3
    by simp
  from 1 2 3 show ?thesis by blast
qed

text \<open>
  The claim as written covers every 200 response; the two messages for a missing
  header are formatted with \<^verbatim>\<open>body.decode()\<close>.
\<close>

theorem malformed_200_undecodable_body_counterexample:
  "decode_response (example_env [] [] ok_response) ''r''
      \<lparr>status = 200, body = [CHR 0xFF], resp_headers = []\<rparr>
     = Inl UnicodeDecodeError"
  by code_simp

subsection \<open>What the protocol errors say\<close>

text \<open>
  Claim C6, amended. When the decoder raises \<^verbatim>\<open>RemoteException\<close> on a response with
  status 200: if the metadata header or the Content-Type header is missing, the message
  contains the status and the body; if both are present (the prefix is wrong), the
  message is \<^verbatim>\<open>Bento payload decode error: invalid Content-Type '<content type>'.\<close>
  and nothing else.
\<close>

theorem protocol_error_message_contents:
  assumes "status resp = 200"
    and "decode_payload env rname resp = Inl (RemoteException msg)"
  shows "(headers_getitem (resp_headers resp) (PAYLOAD_META_HEADER env) = None
            \<or> headers_getitem (resp_headers resp) ''Content-Type'' = None
          \<longrightarrow> sublist (str_int (status resp)) msg \<and> sublist (body resp) msg)
       \<and> (headers_getitem (resp_headers resp) (PAYLOAD_META_HEADER env) = Some mh
            \<and> headers_getitem (resp_headers resp) ''Content-Type'' = Some ct
          \<longrightarrow> msg = ''Bento payload decode error: invalid Content-Type '' @ quote
                      @ ct @ quote @ ''.'')"
proof -
  let ?tail = "''['' @ str_int (status resp) @ ''] '' @ body resp"
  have t1: "sublist (str_int (status resp)) (a @ ?tail)" for a
  proof -
    have "a @ ?tail = (a @ ''['') @ str_int (status resp) @ (''] '' @ body resp)" by simp
    then show ?thesis using sublist_appendI by metis
  qed
  have t2: "sublist (body resp) (a @ ?tail)" for a
  proof -
    have "a @ ?tail = (a @ ''['' @ str_int (status resp) @ ''] '') @ body resp @ []" by simp
    then show ?thesis using sublist_appendI by metis
  qed
  show ?thesis
  proof (cases "headers_getitem (resp_headers resp) (PAYLOAD_META_HEADER env)")
    case None
    then obtain a where "msg = a @ ?tail"
      using assms
      by (auto simp: decode_payload_def decode_def split: if_splits)
    then show ?thesis using None t1 t2 by simp
  next
    case (Some m)
    note meta = Some
    show ?thesis
    proof (cases "headers_getitem (resp_headers resp) ''Content-Type''")
      case None
      then obtain a where "msg = a @ ?tail"
        using assms meta
        by (auto simp: decode_payload_def decode_def split: if_splits)
      then show ?thesis using None meta t1 t2 by simp
    next
      case (Some c)
      then show ?thesis using assms meta
        by (auto simp: decode_payload_def Let_def split: if_splits option.splits)
    qed
  qed
qed

theorem protocol_error_message_contents_witness:
  "sublist ''200'' (''Bento payload decode error: Bento-Payload-Meta header not set. ''
             @ ''An exception might have occurred in the remote server.[200] boom'')
   \<and> sublist ''boom'' (''Bento payload decode error: Bento-Payload-Meta header not set. ''
             @ ''An exception might have occurred in the remote server.[200] boom'')
   \<and> decode_payload (example_env [] [] ok_response) ''r''
        \<lparr>status = 200, body = ''boom'',
         resp_headers = [(''Bento-Payload-Meta'', ''{}''), (''Content-Type'', ''text/html'')]\<rparr>
       = Inl (RemoteException (''Bento payload decode error: invalid Content-Type ''
               @ quote @ ''text/html'' @ quote @ ''.''))"
proof -
  let ?env = "example_env [] [] ok_response"
  let ?r1 = "\<lparr>status = 200, body = ''boom'', resp_headers = [(''Content-Type'', ''text/html'')]\<rparr>"
  let ?r3 = "\<lparr>status = 200, body = ''boom'',
         resp_headers = [(''Bento-Payload-Meta'', ''{}''), (''Content-Type'', ''text/html'')]\<rparr>"
  let ?msg = "''Bento payload decode error: Bento-Payload-Meta header not set. ''
             @ ''An exception might have occurred in the remote server.[200] boom''"
  have h1: "status ?r1 = 200" by simp
  have h2: "decode_payload ?env ''r'' ?r1 = Inl (RemoteException ?msg)" by code_simp
  have a1: "headers_getitem (resp_headers ?r1) (PAYLOAD_META_HEADER ?env) = None" by code_simp
  have s: "str_int 200 = ''200''" by code_simp
  have 1: "sublist ''200'' ?msg \<and> sublist ''boom'' ?msg"
    using protocol_error_message_contents [OF h1 h2, where mh = "[]" and ct = "[]"] a1
    by (simp add: s)
  have h3: "status ?r3 = 200" by simp
  have h4: "decode_payload ?env ''r'' ?r3
              = Inl (RemoteException (''Bento payload decode error: invalid Content-Type ''
                      @ [CHR 0x27] @ ''text/html'' @ [CHR 0x27] @ ''.''))"
    by code_simp
  have a3: "headers_getitem (resp_headers ?r3) (PAYLOAD_META_HEADER ?env) = Some ''{}''"
    by code_simp
  have b3: "headers_getitem (resp_headers ?r3) ''Content-Type'' = Some ''text/html''"
    by code_simp
  have 3: "decode_payload ?env ''r'' ?r3
       = Inl (RemoteException (''Bento payload decode error: invalid Content-Type ''
               @ quote @ ''text/html'' @ quote @ ''.''))"
    using protocol_error_message_contents
            [OF h3 h4, where mh = "''{}''" and ct = "''text/html''"] a3 b3 h4
    by simp
  from 1 3 show ?thesis by blast
qed

text \<open>
  The claim as written puts the status and the body into the wrong-prefix message too;
  line 189 puts the observed Content-Type there, and neither of the two.
\<close>

theorem wrong_prefix_message_counterexample:
  "decode_payload (example_env [] [] ok_response) ''r''
      \<lparr>status = 200, body = ''boom'',
       resp_headers = [(''Bento-Payload-Meta'', ''{}''), (''Content-Type'', ''text/html'')]\<rparr>
     = Inl (RemoteException (''Bento payload decode error: invalid Content-Type ''
             @ quote @ ''text/html'' @ quote @ ''.''))
   \<and> \<not> sublist ''boom'' (''Bento payload decode error: invalid Content-Type ''
             @ quote @ ''text/html'' @ quote @ ''.'')
   \<and> \<not> sublist ''200'' (''Bento payload decode error: invalid Content-Type ''
             @ quote @ ''text/html'' @ quote @ ''.'')"
  by code_simp

subsection \<open>Rebuilding the connector\<close>

text \<open>
  Claim C7, amended. \<^verbatim>\<open>_get_conn\<close> never closes a connector: every connector that
  existed before the call, the one the client referred to included, is afterwards
  exactly as it was, closed if and only if it was closed before. A connector is closed
  by \<^verbatim>\<open>_close_conn\<close>, which closes the one the client refers to.
\<close>

theorem rebuild_leaves_previous_connector:
  assumes "get_conn env s = (r, s')"
  shows "take (length (connectors s)) (connectors s') = connectors s
       \<and> (\<forall>c. c < length (connectors s) \<longrightarrow> connector_closed s' c = connector_closed s c)
       \<and> (\<forall>c. self_conn s = Some c \<and> c < length (connectors s)
              \<longrightarrow> connector_closed (close_conn s) c)"
proof -
  have t: "take (length (connectors s)) (connectors s') = connectors s"
    using assms by (rule get_conn_connectors)
  have "connector_closed s' c = connector_closed s c" if "c < length (connectors s)" for c
  proof -
    have "connectors s' ! c = take (length (connectors s)) (connectors s') ! c"
      using that by simp
    moreover have "length (connectors s) \<le> length (connectors s')"
    proof -
      have "length (take (length (connectors s)) (connectors s')) = length (connectors s)"
        using t by simp
      then show ?thesis by simp
    qed
    ultimately show ?thesis using that t by (simp add: connector_closed_def)
  qed
  moreover have "connector_closed (close_conn s) c"
    if "self_conn s = Some c \<and> c < length (connectors s)" for c
    using that by (simp add: close_conn_def connector_closed_def)
  ultimately show ?thesis using t by blast
qed

theorem rebuild_leaves_previous_connector_witness:
  "connector_closed (snd (get_conn loop_replaced_env built_once)) 0 = connector_closed built_once 0
   \<and> connector_closed (close_conn built_once) 0"
proof -
  have h: "get_conn loop_replaced_env built_once
             = (fst (get_conn loop_replaced_env built_once),
                snd (get_conn loop_replaced_env built_once))"
    by simp
  have l: "length (connectors built_once) = 1" by code_simp
  have c: "self_conn built_once = Some 0" by code_simp
  show ?thesis
    using rebuild_leaves_previous_connector [OF h] l c by simp
qed

text \<open>
  The claim as written has the previous connector closed on every rebuild; when the
  stored loop has been closed, the connector built on it is open, is replaced, and
  stays open.
\<close>

theorem rebuild_without_close_counterexample:
  "conn_stale loop_replaced_env built_once
   \<and> self_conn built_once = Some 0
   \<and> fst (get_conn loop_replaced_env built_once) = Inr 1
   \<and> self_conn (snd (get_conn loop_replaced_env built_once)) = Some 1
   \<and> \<not> connector_closed (snd (get_conn loop_replaced_env built_once)) 0"
  by code_simp

subsection \<open>The timeout of the session\<close>

text \<open>
  Claim C8. \<^verbatim>\<open>runner_timeout\<close> is the \<^verbatim>\<open>timeout\<close> of the runner's own entry when the
  configuration has an entry under the runner's name, whatever the global \<^verbatim>\<open>timeout\<close> is
  (an entry without a \<^verbatim>\<open>timeout\<close> raises \<^verbatim>\<open>KeyError\<close>; it does not fall back); without
  such an entry it is the global \<^verbatim>\<open>timeout\<close>. The session that \<^verbatim>\<open>_client\<close> builds
  carries that value as its timeout.
\<close>

theorem runner_timeout_lookup:
  "(map_of runner_cfg rname = Some (CDict d) \<and> map_of d ''timeout'' = Some t
      \<longrightarrow> runner_timeout runner_cfg rname = Inr t)
   \<and> (map_of runner_cfg rname = Some (CDict d) \<and> map_of d ''timeout'' = None
      \<longrightarrow> runner_timeout runner_cfg rname = Inl (KeyError ''timeout''))
   \<and> (map_of runner_cfg rname = None \<and> map_of runner_cfg ''timeout'' = Some t
      \<longrightarrow> runner_timeout runner_cfg rname = Inr t)
   \<and> (build_client env s = (Inr i, s')
      \<longrightarrow> runner_timeout (runners_config env) (runner_name s)
            = Inr (sess_timeout (sessions s' ! i)))"
  by (auto simp: runner_timeout_def subscript_def getitem_def build_client_def Let_def
           split: sum.splits prod.splits option.splits)

theorem runner_timeout_lookup_witness:
  "runner_timeout [(''r'', CDict [(''timeout'', CInt 10)]), (''timeout'', CInt 300)] ''r''
     = Inr (CInt 10)
   \<and> runner_timeout [(''r'', CDict []), (''timeout'', CInt 300)] ''r''
     = Inl (KeyError ''timeout'')
   \<and> runner_timeout [(''other'', CDict [(''timeout'', CInt 10)]), (''timeout'', CInt 300)] ''r''
     = Inr (CInt 300)
   \<and> sess_timeout (sessions (snd (build_client
          (example_env [(''r'', ''tcp://127.0.0.1:3000'')] [(''timeout'', CInt 300)] ok_response)
          (RemoteRunnerClient ''r''))) ! 0) = CInt 300"
proof -
  let ?env = "example_env [(''r'', ''tcp://127.0.0.1:3000'')] [(''timeout'', CInt 300)] ok_response"
  let ?s = "RemoteRunnerClient ''r''"
  let ?A = "[(''r'', CDict [(''timeout'', CInt 10)]), (''timeout'', CInt 300)]"
  let ?B = "[(''other'', CDict [(''timeout'', CInt 10)]), (''timeout'', CInt 300)]"
  let ?C = "[(''r'', CDict []), (''timeout'', CInt 300)]"
  have b: "build_client ?env ?s = (Inr 0, snd (build_client ?env ?s))"
    by code_simp
  have r: "runner_timeout (runners_config ?env) (runner_name ?s) = Inr (CInt 300)"
    by code_simp
  have 1: "runner_timeout ?A ''r'' = Inr (CInt 10)"
    using runner_timeout_lookup
      [of ?A "''r''" "[(''timeout'', CInt 10)]" "CInt 10" ?env ?s 0 "snd (build_client ?env ?s)"]
    by simp
  have 2: "runner_timeout ?C ''r'' = Inl (KeyError ''timeout'')"
    using runner_timeout_lookup
      [of ?C "''r''" "[]" "CInt 10" ?env ?s 0 "snd (build_client ?env ?s)"]
    by simp
  have 3: "runner_timeout ?B ''r'' = Inr (CInt 300)"
    using runner_timeout_lookup
      [of ?B "''r''" "[]" "CInt 300" ?env ?s 0 "snd (build_client ?env ?s)"]
    by simp
  have 4: "sess_timeout (sessions (snd (build_client ?env ?s)) ! 0) = CInt 300"
    using runner_timeout_lookup
      [of ?B "''r''" "[]" "CInt 300" ?env ?s 0 "snd (build_client ?env ?s)"] b r
    by simp
  from 1 2 3 4 show ?thesis by blast
qed

subsection \<open>The request path\<close>

text \<open>
  Claim C9. When the batch check passes and the session is available, the call sends
  exactly one request; its path is empty when the method is \<^verbatim>\<open>__call__\<close>, so that the
  URL is the authority followed by \<^verbatim>\<open>/\<close>, and is the method name otherwise, so that the
  URL is the authority followed by \<^verbatim>\<open>/\<close> and the name.
\<close>

theorem request_path_of_method:
  assumes "\<not> (batchable m \<and> \<not> all_equal (params_map batch_size p))"
    and "client env s = (Inr c, s1)"
  shows "sent (snd (async_run_method env s m p)) \<noteq> []
       \<and> butlast (sent (snd (async_run_method env s m p))) = sent s1
       \<and> (name m = ''__call__''
            \<longrightarrow> request_path m = []
              \<and> url (last (sent (snd (async_run_method env s m p))))
                  = format_addr (self_addr s1) @ ''/'')
       \<and> (name m \<noteq> ''__call__''
            \<longrightarrow> request_path m = name m
              \<and> url (last (sent (snd (async_run_method env s m p))))
                  = format_addr (self_addr s1) @ ''/'' @ name m)"
  using assms
  by (auto simp: async_run_method_def send_request_def request_path_def Let_def
           split: sum.splits)

theorem request_path_of_method_witness:
  "url (last (sent (snd (async_run_method
      (example_env [(''r'', ''tcp://127.0.0.1:3000'')] [(''timeout'', CInt 300)] ok_response)
      (RemoteRunnerClient ''r'')
      \<lparr>name = ''__call__'', batchable = False, batch_dim = (0, 0)\<rparr>
      \<lparr>args = [], kwargs = []\<rparr>)))) = ''http://127.0.0.1:3000/''
   \<and> url (last (sent (snd (async_run_method
      (example_env [(''r'', ''tcp://127.0.0.1:3000'')] [(''timeout'', CInt 300)] ok_response)
      (RemoteRunnerClient ''r'')
      \<lparr>name = ''predict'', batchable = False, batch_dim = (0, 0)\<rparr>
      \<lparr>args = [], kwargs = []\<rparr>)))) = ''http://127.0.0.1:3000/predict''"
proof -
  let ?env = "example_env [(''r'', ''tcp://127.0.0.1:3000'')] [(''timeout'', CInt 300)] ok_response"
  let ?s = "RemoteRunnerClient ''r''"
  let ?m1 = "\<lparr>name = ''__call__'', batchable = False, batch_dim = (0, 0)\<rparr>"
  let ?m2 = "\<lparr>name = ''predict'', batchable = False, batch_dim = (0, 0)\<rparr>"
  let ?p = "\<lparr>args = [], kwargs = []\<rparr> :: payload params"
  have b1: "\<not> (batchable ?m1 \<and> \<not> all_equal (params_map batch_size ?p))" by simp
  have b2: "\<not> (batchable ?m2 \<and> \<not> all_equal (params_map batch_size ?p))" by simp
  have c: "client ?env ?s = (Inr 0, snd (client ?env ?s))" by code_simp
  have a: "self_addr (snd (client ?env ?s)) = Some ''http://127.0.0.1:3000''" by code_simp
  have n1: "name ?m1 = ''__call__''" by simp
  have n2: "name ?m2 \<noteq> ''__call__''" by simp
  have 1: "url (last (sent (snd (async_run_method ?env ?s ?m1 ?p)))) = ''http://127.0.0.1:3000/''"
    using request_path_of_method [OF b1 c] n1 a by (simp add: format_addr_def)
  have 2: "url (last (sent (snd (async_run_method ?env ?s ?m2 ?p))))
             = ''http://127.0.0.1:3000/predict''"
    using request_path_of_method [OF b2 c] n2 a by (simp add: format_addr_def)
  from 1 2 show ?thesis by blast
qed

subsection \<open>The case of the vendor prefix\<close>

text \<open>
  Claim C10. For a response with status 200 and both headers, whose Content-Type starts
  with the vendor prefix in any mixture of upper and lower case, the decoder does not
  raise the wrong-prefix error: it goes on to the metadata, and the payload's container
  is \<^verbatim>\<open>strip\<close> of the Content-Type as it was received, not lower-cased.
\<close>

theorem prefix_check_ignores_case:
  assumes "status resp = 200"
    and "headers_getitem (resp_headers resp) (PAYLOAD_META_HEADER env) = Some mh"
    and "headers_getitem (resp_headers resp) ''Content-Type'' = Some (p @ tag)"
    and "lower p = ''application/vnd.bentoml.''"
  shows "decode_payload env rname resp =
           (case json_loads env mh of
              None \<Rightarrow> Inl (ValueError (''Bento payload decode error: '' @ mh))
            | Some m \<Rightarrow>
                Inr \<lparr>data = body resp, meta = m,
                     container = strip (p @ tag) ''application/vnd.bentoml.'',
                     batch_size = default_batch_size env\<rparr>)"
proof -
  have "startswith (lower (p @ tag)) ''application/vnd.bentoml.''"
    using assms(4) by (rule startswith_lower_prefix)
  then show ?thesis
    using assms(1-3) by (simp add: decode_payload_def Let_def)
qed

theorem prefix_check_ignores_case_witness:
  "decode_payload (example_env [] [] ok_response) ''r''
     \<lparr>status = 200, body = ''[1]'',
      resp_headers = [(''Bento-Payload-Meta'', ''{}''),
                      (''Content-Type'', ''Application/Vnd.BentoML.NdarrayContainer'')]\<rparr>
   = Inr \<lparr>data = ''[1]'', meta = JDict [],
          container = ''Application/Vnd.BentoML.NdarrayContainer'', batch_size = - 1\<rparr>"
proof -
  let ?env = "example_env [] [] ok_response"
  let ?r = "\<lparr>status = 200, body = ''[1]'',
      resp_headers = [(''Bento-Payload-Meta'', ''{}''),
                      (''Content-Type'', ''Application/Vnd.BentoML.NdarrayContainer'')]\<rparr>"
  have h1: "status ?r = 200" by simp
  have h2: "headers_getitem (resp_headers ?r) (PAYLOAD_META_HEADER ?env) = Some ''{}''"
    by code_simp
  have h3: "headers_getitem (resp_headers ?r) ''Content-Type''
              = Some (''Application/Vnd.BentoML.'' @ ''NdarrayContainer'')"
    by code_simp
  have h4: "lower ''Application/Vnd.BentoML.'' = ''application/vnd.bentoml.''"
    by code_simp
  have j: "json_loads ?env ''{}'' = Some (JDict [])" by (simp add: example_env_def)
  have d: "default_batch_size ?env = - 1" by (simp add: example_env_def)
  have st: "strip ''Application/Vnd.BentoML.NdarrayContainer'' ''application/vnd.bentoml.''
              = ''Application/Vnd.BentoML.NdarrayContainer''"
    by code_simp
  show ?thesis
    using prefix_check_ignores_case [OF h1 h2 h3 h4, of "''r''"]
    by (simp add: j d st)
qed

end
